theory Spec2Isabelle
  imports Complex_Main "HOL-Library.Word"
begin

section \<open>Values shared by the filter and the controller\<close>

type_synonym byte = "8 word"

text \<open>
  A JavaScript value standing where the code expects an \<^verbatim>\<open>ArrayBuffer\<close>: the two
  falsy absent values, or a buffer object holding bytes. A buffer object is truthy
  whatever its length.
\<close>

datatype buffer = Undefined | Null | Buffer "byte list"

text \<open>
  What \<^verbatim>\<open>bufferToUrl\<close> returns: a plain string, or the value wrapped by
  \<^verbatim>\<open>$sce.trustAsResourceUrl\<close>.
\<close>

datatype resource = Plain string | Trusted string

text \<open>Calls on the injected services, in the order the code makes them.\<close>

datatype effect =
    LogDebug string
  | LogWarn string string
  | LogError string string buffer
  | RequestThumbnail string string
  | RequestBlob string string
  | SetMedia "byte list" string string string
  | SaveAs "byte list" string
  | ShowAudioDialog "byte list"
  | ShowAlert string string string
  | ExceptionHandler string

section \<open>The filter \<^verbatim>\<open>bufferToUrl\<close> (src/filters.ts)\<close>

text \<open>
  \<^verbatim>\<open>btoa\<close> is the browser's base64 encoder (RFC 4648, alphabet A-Z a-z 0-9 + /,
  padded with =): each group of three characters is a 24-bit number cut into four 6-bit
  digits, a last group of one or two characters is shifted left to 12 or 18 bits. It
  takes a binary string, every character a code below 256; a
  \<^typ>\<open>char\<close> is exactly such a code, so the model is total where the browser's
  function does not throw.
\<close>

definition b64_alphabet :: string where
  "b64_alphabet = ''ABCDEFGHIJKLMNOPQRSTUVWXYZabcdefghijklmnopqrstuvwxyz0123456789+/''"

definition b64_char :: "nat \<Rightarrow> char" where
  "b64_char n = b64_alphabet ! n"

fun btoa :: "string \<Rightarrow> string" where
  "btoa [] = []"
| "btoa [a] =
     (let n = of_char a * 16 :: nat
      in [b64_char (n div 64), b64_char (n mod 64), CHR ''='', CHR ''=''])"
| "btoa [a, b] =
     (let n = (of_char a * 256 + of_char b) * 4 :: nat
      in [b64_char (n div 64 div 64), b64_char (n div 64 mod 64),
          b64_char (n mod 64), CHR ''=''])"
| "btoa (a # b # c # rest) =
     (let n = (of_char a * 256 + of_char b) * 256 + of_char c :: nat
      in [b64_char (n div 64 div 64 div 64), b64_char (n div 64 div 64 mod 64),
          b64_char (n div 64 mod 64), b64_char (n mod 64)]) @ btoa rest"

text \<open>\<^verbatim>\<open>String.fromCharCode(bytes[i])\<close> for an element of a \<^verbatim>\<open>Uint8Array\<close>.\<close>

definition fromCharCode :: "byte \<Rightarrow> char" where
  "fromCharCode b = char_of (unat b)"

text \<open>The loop \<^verbatim>\<open>for (i = 0; i < len; i++) binary += String.fromCharCode(bytes[i])\<close>.\<close>

fun binary_loop :: "byte list \<Rightarrow> string \<Rightarrow> string" where
  "binary_loop [] binary = binary"
| "binary_loop (b # bytes) binary = binary_loop bytes (binary @ [fromCharCode b])"

text \<open>
  The filter returns its value and the calls it made on \<^verbatim>\<open>$log\<close>. The guard is
  \<^verbatim>\<open>!buffer\<close>: it holds of \<^verbatim>\<open>undefined\<close> and \<^verbatim>\<open>null\<close> and of no buffer object.
\<close>

definition logTag :: string where
  "logTag = ''[filters.bufferToUrl]''"

fun bufferToUrl :: "buffer \<Rightarrow> string \<Rightarrow> bool \<Rightarrow> resource \<times> effect list" where
  "bufferToUrl Undefined mimeType trust =
     (Plain '''', [LogError logTag ''Could not apply bufferToUrl filter: buffer is'' Undefined])"
| "bufferToUrl Null mimeType trust =
     (Plain '''', [LogError logTag ''Could not apply bufferToUrl filter: buffer is'' Null])"
| "bufferToUrl (Buffer bytes) mimeType trust =
     (let binary = binary_loop bytes '''';
          uri = ''data:'' @ mimeType @ '';base64,'' @ btoa binary
      in if trust then (Trusted uri, []) else (Plain uri, []))"

section \<open>Reading a data resource back\<close>

text \<open>
  The decoder against which the round trip is stated: strict base64 (RFC 4648), four
  characters at a time, padding accepted in the last group only. It is applied to what
  follows the comma of a \<^verbatim>\<open>data:<mime>;base64,<payload>\<close> string.
\<close>

fun index_of :: "'a \<Rightarrow> 'a list \<Rightarrow> nat option" where
  "index_of x [] = None"
| "index_of x (y # ys) = (if x = y then Some 0 else map_option Suc (index_of x ys))"

definition b64_index :: "char \<Rightarrow> nat option" where
  "b64_index c = index_of c b64_alphabet"

fun base64_decode :: "string \<Rightarrow> byte list option" where
  "base64_decode [] = Some []"
| "base64_decode (c1 # c2 # c3 # c4 # rest) =
     (case (b64_index c1, b64_index c2) of
        (Some i1, Some i2) \<Rightarrow>
          if rest = [] \<and> c3 = CHR ''='' \<and> c4 = CHR ''=''
          then Some [of_nat ((i1 * 64 + i2) div 16)]
          else (case b64_index c3 of
             None \<Rightarrow> None
           | Some i3 \<Rightarrow>
               if rest = [] \<and> c4 = CHR ''=''
               then (let m = ((i1 * 64 + i2) * 64 + i3) div 4
                     in Some [of_nat (m div 256), of_nat (m mod 256)])
               else (case (b64_index c4, base64_decode rest) of
                  (Some i4, Some bytes) \<Rightarrow>
                    (let n = ((i1 * 64 + i2) * 64 + i3) * 64 + i4
                     in Some (of_nat (n div 256 div 256) # of_nat (n div 256 mod 256)
                              # of_nat (n mod 256) # bytes))
                | _ \<Rightarrow> None))
      | _ \<Rightarrow> None)"
| "base64_decode _ = None"

definition resource_string :: "resource \<Rightarrow> string" where
  "resource_string r = (case r of Plain s \<Rightarrow> s | Trusted s \<Rightarrow> s)"

section \<open>The message and what the services deliver\<close>

text \<open>
  The fields of \<^verbatim>\<open>threema.Message\<close> the directive reads. An optional field that
  is \<^verbatim>\<open>undefined\<close> is \<open>None\<close>. The only use of a thumbnail's \<^verbatim>\<open>width\<close> and
  \<^verbatim>\<open>height\<close> is \<^verbatim>\<open>width + 'px'\<close>, which converts the number to a string; the two
  fields hold that string, whatever form the language gives it.
\<close>

record thumbnail_info =
  img :: "byte list option"
  width :: string
  height :: string

record file_info =
  file_type :: string

record location_info =
  lat :: real
  lon :: real

record message =
  msg_id :: string
  msg_type :: string
  msg_temporaryId :: "string option"
  msg_caption :: "string option"
  msg_thumbnail :: "thumbnail_info option"
  msg_file :: "file_info option"
  msg_location :: "location_info option"

text \<open>\<^verbatim>\<open>threema.BlobInfo\<close>, the value \<^verbatim>\<open>requestBlob\<close> resolves with.\<close>

record blob_info =
  blob_buffer :: "byte list"
  filename :: string
  mimetype :: string

section \<open>The controller of the directive and its surroundings\<close>

text \<open>The fields the controller function sets on \<^verbatim>\<open>this\<close>, with two of the bindings.\<close>

record ctrl =
  message :: message
  receiver :: string
  type' :: string
  downloading :: bool
  thumbnailDownloading :: bool
  downloaded :: bool
  timeout :: "nat option"
  uploading :: bool
  isAnimGif :: bool
  showThumbnail :: bool
  thumbnail :: "resource option"
  thumbnailFormat :: string
  thumbnailStyle :: "(string \<times> string) option"
  wasInView :: bool
  location :: "location_info option"
  blobBuffer :: "byte list option"

datatype js_error = TypeError string

text \<open>
  The callbacks the controller hands to \<^verbatim>\<open>$timeout\<close>: the outer one (after 1000 ms)
  calls \<^verbatim>\<open>requestThumbnail\<close>, the inner one (no delay) stores the image it closes over.
\<close>

datatype task = RequestThumbnailTask | StoreThumbnailTask buffer

text \<open>
  The controller together with what surrounds it: the closure variable
  \<^verbatim>\<open>loadingThumbnailTimeout\<close>, the value of
  \<^verbatim>\<open>webClientService.appCapabilities.imageFormat.thumbnail\<close>, the callbacks that
  \<^verbatim>\<open>$timeout\<close> holds (identifier, delay, task), the number of promises of
  \<^verbatim>\<open>requestThumbnail\<close> and \<^verbatim>\<open>requestBlob\<close> not yet settled, and the calls made
  on the services so far.
\<close>

record system =
  self :: ctrl
  loadingThumbnailTimeout :: "nat option"
  imageFormat_thumbnail :: string
  timers :: "(nat \<times> nat \<times> task) list"
  nextTimer :: nat
  thumbnailRequests :: nat
  blobRequests :: nat
  effects :: "effect list"

text \<open>
  The controller function up to the definition of its methods. Reading
  \<^verbatim>\<open>this.message.file.type\<close> of a message without \<^verbatim>\<open>file\<close> throws; the
  conjunction reaches it only for a message of type file that is not uploading.
\<close>

definition controller :: "string \<Rightarrow> message \<Rightarrow> string \<Rightarrow> js_error + ctrl" where
  "controller imageFormat msg rcv =
     (let upl = (msg_temporaryId msg \<noteq> None)
      in if \<not> upl \<and> msg_type msg = ''file'' \<and> msg_file msg = None
         then Inl (TypeError ''this.message.file is undefined'')
         else
           let gif = (\<not> upl \<and> msg_type msg = ''file''
                      \<and> map_option file_type (msg_file msg) = Some ''image/gif'')
           in Inr \<lparr> message = msg,
                    receiver = rcv,
                    type' = msg_type msg,
                    downloading = False,
                    thumbnailDownloading = False,
                    downloaded = (msg_location msg \<noteq> None),
                    timeout = None,
                    uploading = upl,
                    isAnimGif = gif,
                    showThumbnail = (msg_thumbnail msg \<noteq> None
                                     \<and> (msg_type msg \<noteq> ''file'' \<or> gif)),
                    thumbnail = None,
                    thumbnailFormat = imageFormat,
                    thumbnailStyle =
                      (case msg_thumbnail msg of
                         None \<Rightarrow> None
                       | Some th \<Rightarrow> Some (width th @ ''px'', height th @ ''px'')),
                    wasInView = False,
                    location = msg_location msg,
                    blobBuffer = None \<rparr>)"

text \<open>A controller just created: nothing scheduled, nothing requested, nothing called.\<close>

definition new_system :: "string \<Rightarrow> ctrl \<Rightarrow> system" where
  "new_system imageFormat c =
     \<lparr> self = c, loadingThumbnailTimeout = None, imageFormat_thumbnail = imageFormat,
       timers = [], nextTimer = 0, thumbnailRequests = 0, blobRequests = 0, effects = [] \<rparr>"

subsection \<open>\<^verbatim>\<open>$timeout\<close>\<close>

text \<open>
  \<^verbatim>\<open>$timeout(fn, delay)\<close> registers the callback and returns its promise;
  \<^verbatim>\<open>$timeout.cancel(promise)\<close> removes a callback that has not run, and does nothing
  for \<^verbatim>\<open>null\<close> or for a callback that has run.
\<close>

definition timeout_call :: "nat \<Rightarrow> task \<Rightarrow> system \<Rightarrow> nat \<times> system" where
  "timeout_call delay k sys =
     (nextTimer sys,
      sys\<lparr>timers := timers sys @ [(nextTimer sys, delay, k)],
          nextTimer := Suc (nextTimer sys)\<rparr>)"

definition timeout_cancel :: "nat option \<Rightarrow> system \<Rightarrow> system" where
  "timeout_cancel p sys =
     (case p of
        None \<Rightarrow> sys
      | Some t \<Rightarrow> sys\<lparr>timers := filter (\<lambda>x. fst x \<noteq> t) (timers sys)\<rparr>)"

subsection \<open>\<^verbatim>\<open>thumbnailInView\<close>\<close>

definition thumbnailInView :: "bool \<Rightarrow> system \<Rightarrow> system" where
  "thumbnailInView inView sys =
     (case msg_thumbnail (message (self sys)) of
        None \<Rightarrow> sys
      | Some th \<Rightarrow>
          if wasInView (self sys) = inView then sys
          else
            let sys1 = sys\<lparr>self := (self sys)\<lparr>wasInView := inView\<rparr>\<rparr>
            in if \<not> inView
               then
                 (let sys2 = timeout_cancel (loadingThumbnailTimeout sys1) sys1
                  in sys2\<lparr>self := (self sys2)\<lparr>thumbnailDownloading := False,
                                                thumbnail := None\<rparr>\<rparr>)
               else if thumbnail (self sys1) = None
               then
                 (case img th of
                    Some bytes \<Rightarrow>
                      (let (r, logged) =
                             bufferToUrl (Buffer bytes) (imageFormat_thumbnail sys1) True
                       in sys1\<lparr>self := (self sys1)\<lparr>thumbnail := Some r\<rparr>,
                               effects := effects sys1 @ logged\<rparr>)
                  | None \<Rightarrow>
                      (let sys2 = sys1\<lparr>self := (self sys1)\<lparr>thumbnailDownloading := True\<rparr>\<rparr>;
                           (t, sys3) = timeout_call 1000 RequestThumbnailTask sys2
                       in sys3\<lparr>loadingThumbnailTimeout := Some t\<rparr>))
               else sys1)"

text \<open>The callback of the outer \<^verbatim>\<open>$timeout\<close>: the request goes out.\<close>

definition requestThumbnail_task :: "system \<Rightarrow> system" where
  "requestThumbnail_task sys =
     sys\<lparr>thumbnailRequests := Suc (thumbnailRequests sys),
         effects := effects sys
           @ [RequestThumbnail (receiver (self sys)) (msg_id (message (self sys)))]\<rparr>"

text \<open>The \<^verbatim>\<open>then\<close> callback of the request: it only schedules the inner callback.\<close>

definition requestThumbnail_then :: "buffer \<Rightarrow> system \<Rightarrow> system" where
  "requestThumbnail_then fetched sys = snd (timeout_call 0 (StoreThumbnailTask fetched) sys)"

text \<open>The inner callback.\<close>

definition storeThumbnail_task :: "buffer \<Rightarrow> system \<Rightarrow> system" where
  "storeThumbnail_task fetched sys =
     (let (r, logged) = bufferToUrl fetched (imageFormat_thumbnail sys) True
      in sys\<lparr>self := (self sys)\<lparr>thumbnail := Some r, thumbnailDownloading := False\<rparr>,
             effects := effects sys @ logged\<rparr>)"

subsection \<open>\<^verbatim>\<open>download\<close>\<close>

definition playAudio :: "byte list \<Rightarrow> system \<Rightarrow> system" where
  "playAudio buf sys = sys\<lparr>effects := effects sys @ [ShowAudioDialog buf]\<rparr>"

definition download :: "system \<Rightarrow> system" where
  "download sys =
     (if downloading (self sys)
      then sys\<lparr>effects := effects sys @ [LogDebug ''download already in progress...'']\<rparr>
      else sys\<lparr>self := (self sys)\<lparr>downloading := True\<rparr>,
               blobRequests := Suc (blobRequests sys),
               effects := effects sys
                 @ [RequestBlob (msg_id (message (self sys))) (receiver (self sys))]\<rparr>)"

text \<open>
  The \<^verbatim>\<open>then\<close> callback. It runs inside \<^verbatim>\<open>$rootScope.$apply\<close>, which hands an
  exception of its argument to \<^verbatim>\<open>$exceptionHandler\<close>: the two assignments before the
  \<^verbatim>\<open>switch\<close> have been made by then.
\<close>

definition download_then :: "blob_info \<Rightarrow> system \<Rightarrow> system" where
  "download_then blobInfo sys =
     (let sys1 = sys\<lparr>self := (self sys)\<lparr>downloading := False, downloaded := True\<rparr>\<rparr>;
          msg = message (self sys1)
      in if msg_type msg = ''image''
         then
           (let caption = (case msg_caption msg of None \<Rightarrow> [] | Some c \<Rightarrow> c)
            in sys1\<lparr>effects := effects sys1
                 @ [SetMedia (blob_buffer blobInfo) (filename blobInfo) (mimetype blobInfo)
                      caption]\<rparr>)
         else if msg_type msg = ''video''
         then sys1\<lparr>effects := effects sys1 @ [SaveAs (blob_buffer blobInfo) (filename blobInfo)]\<rparr>
         else if msg_type msg = ''file''
         then
           (case msg_file msg of
              None \<Rightarrow>
                sys1\<lparr>effects := effects sys1
                  @ [ExceptionHandler ''TypeError: this.message.file is undefined'']\<rparr>
            | Some f \<Rightarrow>
                if file_type f = ''image/gif''
                then sys1\<lparr>self := (self sys1)\<lparr>blobBuffer := Some (blob_buffer blobInfo),
                                              showThumbnail := False\<rparr>\<rparr>
                else sys1\<lparr>effects := effects sys1
                       @ [SaveAs (blob_buffer blobInfo) (filename blobInfo)]\<rparr>)
         else if msg_type msg = ''audio''
         then playAudio (blob_buffer blobInfo) sys1
         else sys1\<lparr>effects := effects sys1
                @ [LogWarn ''Ignored download request for message type'' (msg_type msg)]\<rparr>)"

text \<open>
  The \<^verbatim>\<open>catch\<close> callback. The alert is recorded with the three keys given to
  \<^verbatim>\<open>$translate.instant\<close>: title, text content, button.
\<close>

definition download_catch :: "string \<Rightarrow> system \<Rightarrow> system" where
  "download_catch error sys =
     (let sys1 = sys\<lparr>self := (self sys)\<lparr>downloading := False\<rparr>\<rparr>;
          contentString =
            (if error = ''blobDownloadFailed'' then ''error.BLOB_DOWNLOAD_FAILED''
             else if error = ''blobDecryptFailed'' then ''error.BLOB_DECRYPT_FAILED''
             else ''error.ERROR_OCCURRED'')
      in sys1\<lparr>effects := effects sys1 @ [ShowAlert ''common.ERROR'' contentString ''common.OK'']\<rparr>)"

section \<open>The event loop\<close>

text \<open>
  Everything that makes code of the controller run: the two methods called by the
  template, a registered \<^verbatim>\<open>$timeout\<close> callback coming due, and the settling of a
  promise of \<^verbatim>\<open>requestThumbnail\<close> or \<^verbatim>\<open>requestBlob\<close>. A callback that is not
  registered and a promise that is not outstanding cannot fire: such an event changes
  nothing. The promise of \<^verbatim>\<open>requestThumbnail\<close> has a \<^verbatim>\<open>then\<close> callback and no
  rejection callback.
\<close>

datatype event =
    CallThumbnailInView bool
  | CallDownload
  | TimerFires nat
  | ThumbnailResolved buffer
  | ThumbnailRejected string
  | BlobResolved blob_info
  | BlobRejected string

fun find_timer :: "nat \<Rightarrow> (nat \<times> nat \<times> task) list \<Rightarrow> task option" where
  "find_timer t [] = None"
| "find_timer t ((t', d, k) # rest) = (if t = t' then Some k else find_timer t rest)"

fun run_task :: "task \<Rightarrow> system \<Rightarrow> system" where
  "run_task RequestThumbnailTask sys = requestThumbnail_task sys"
| "run_task (StoreThumbnailTask fetched) sys = storeThumbnail_task fetched sys"

fun step :: "event \<Rightarrow> system \<Rightarrow> system" where
  "step (CallThumbnailInView inView) sys = thumbnailInView inView sys"
| "step CallDownload sys = download sys"
| "step (TimerFires t) sys =
     (case find_timer t (timers sys) of
        None \<Rightarrow> sys
      | Some k \<Rightarrow> run_task k (sys\<lparr>timers := filter (\<lambda>x. fst x \<noteq> t) (timers sys)\<rparr>))"
| "step (ThumbnailResolved fetched) sys =
     (if thumbnailRequests sys = 0 then sys
      else requestThumbnail_then fetched (sys\<lparr>thumbnailRequests := thumbnailRequests sys - 1\<rparr>))"
| "step (ThumbnailRejected reason) sys =
     (if thumbnailRequests sys = 0 then sys
      else sys\<lparr>thumbnailRequests := thumbnailRequests sys - 1\<rparr>)"
| "step (BlobResolved blobInfo) sys =
     (if blobRequests sys = 0 then sys
      else download_then blobInfo (sys\<lparr>blobRequests := blobRequests sys - 1\<rparr>))"
| "step (BlobRejected error) sys =
     (if blobRequests sys = 0 then sys
      else download_catch error (sys\<lparr>blobRequests := blobRequests sys - 1\<rparr>))"

fun run :: "event list \<Rightarrow> system \<Rightarrow> system" where
  "run [] sys = sys"
| "run (e # es) sys = run es (step e sys)"

text \<open>Creating the directive's controller and then letting the events happen.\<close>

definition session :: "string \<Rightarrow> message \<Rightarrow> string \<Rightarrow> event list \<Rightarrow> js_error + system" where
  "session imageFormat msg rcv es =
     (case controller imageFormat msg rcv of
        Inl e \<Rightarrow> Inl e
      | Inr c \<Rightarrow> Inr (run es (new_system imageFormat c)))"

text \<open>Events that are not calls by the template: timers and promises.\<close>

fun env_event :: "event \<Rightarrow> bool" where
  "env_event (CallThumbnailInView inView) = False"
| "env_event CallDownload = False"
| "env_event _ = True"

fun is_RequestThumbnail :: "effect \<Rightarrow> bool" where
  "is_RequestThumbnail (RequestThumbnail rcv mid) = True"
| "is_RequestThumbnail _ = False"

fun is_ShowAlert :: "effect \<Rightarrow> bool" where
  "is_ShowAlert (ShowAlert title text_content ok) = True"
| "is_ShowAlert _ = False"

section \<open>Properties that hold after every event\<close>

text \<open>One outstanding promise of \<^verbatim>\<open>requestBlob\<close> while the flag is set, none otherwise.\<close>

definition blob_inv :: "system \<Rightarrow> bool" where
  "blob_inv sys \<longleftrightarrow> blobRequests sys = (if downloading (self sys) then 1 else 0)"

text \<open>The bindings and the image format are never assigned.\<close>

definition bindings_inv :: "string \<Rightarrow> message \<Rightarrow> string \<Rightarrow> system \<Rightarrow> bool" where
  "bindings_inv imageFormat msg rcv sys \<longleftrightarrow>
     message (self sys) = msg \<and> receiver (self sys) = rcv
     \<and> thumbnailFormat (self sys) = imageFormat
     \<and> imageFormat_thumbnail sys = imageFormat"

text \<open>Identifiers of registered callbacks are below the next identifier.\<close>

definition timers_fresh :: "system \<Rightarrow> bool" where
  "timers_fresh sys \<longleftrightarrow> (\<forall>x \<in> set (timers sys). fst x < nextTimer sys)"

text \<open>
  A registered callback that will request the thumbnail is the one held in
  \<^verbatim>\<open>loadingThumbnailTimeout\<close>, and the message is in view.
\<close>

definition fetch_timer_inv :: "system \<Rightarrow> bool" where
  "fetch_timer_inv sys \<longleftrightarrow>
     (\<forall>x \<in> set (timers sys). snd (snd x) = RequestThumbnailTask \<longrightarrow>
        wasInView (self sys) \<and> loadingThumbnailTimeout sys = Some (fst x))"

text \<open>No registered callback will request the thumbnail.\<close>

definition no_fetch_timer :: "system \<Rightarrow> bool" where
  "no_fetch_timer sys \<longleftrightarrow> (\<forall>x \<in> set (timers sys). snd (snd x) \<noteq> RequestThumbnailTask)"

text \<open>What holds throughout for a message whose thumbnail is embedded.\<close>

definition embedded_inv :: "system \<Rightarrow> bool" where
  "embedded_inv sys \<longleftrightarrow>
     timers sys = [] \<and> thumbnailRequests sys = 0 \<and> \<not> thumbnailDownloading (self sys)
     \<and> (\<not> wasInView (self sys) \<longrightarrow> thumbnail (self sys) = None)"

section \<open>Messages used as concrete inputs\<close>

definition remote_thumbnail_message :: message where
  "remote_thumbnail_message =
     \<lparr> msg_id = ''m1'', msg_type = ''image'', msg_temporaryId = None, msg_caption = None,
       msg_thumbnail = Some \<lparr> img = None, width = ''10'', height = ''20'' \<rparr>,
       msg_file = None, msg_location = None \<rparr>"

definition embedded_thumbnail_message :: message where
  "embedded_thumbnail_message =
     \<lparr> msg_id = ''m2'', msg_type = ''image'', msg_temporaryId = None, msg_caption = None,
       msg_thumbnail = Some \<lparr> img = Some [1, 2], width = ''10'', height = ''20'' \<rparr>,
       msg_file = None, msg_location = None \<rparr>"

definition gif_message :: message where
  "gif_message =
     \<lparr> msg_id = ''m3'', msg_type = ''file'', msg_temporaryId = None, msg_caption = None,
       msg_thumbnail = Some \<lparr> img = None, width = ''10'', height = ''20'' \<rparr>,
       msg_file = Some \<lparr> file_type = ''image/gif'' \<rparr>, msg_location = None \<rparr>"

definition location_message :: message where
  "location_message =
     \<lparr> msg_id = ''m4'', msg_type = ''location'', msg_temporaryId = None, msg_caption = None,
       msg_thumbnail = None, msg_file = None,
       msg_location = Some \<lparr> lat = 47, lon = 8 \<rparr> \<rparr>"

definition file_location_message :: message where
  "file_location_message =
     \<lparr> msg_id = ''m6'', msg_type = ''file'', msg_temporaryId = None, msg_caption = None,
       msg_thumbnail = None, msg_file = None,
       msg_location = Some \<lparr> lat = 47, lon = 8 \<rparr> \<rparr>"

definition uploading_file_location_message :: message where
  "uploading_file_location_message =
     \<lparr> msg_id = ''m7'', msg_type = ''file'', msg_temporaryId = Some ''t1'',
       msg_caption = None, msg_thumbnail = None, msg_file = None,
       msg_location = Some \<lparr> lat = 47, lon = 8 \<rparr> \<rparr>"

definition pdf_message :: message where
  "pdf_message =
     \<lparr> msg_id = ''m5'', msg_type = ''file'', msg_temporaryId = None, msg_caption = None,
       msg_thumbnail = None, msg_file = Some \<lparr> file_type = ''application/pdf'' \<rparr>,
       msg_location = None \<rparr>"

definition example_blob :: blob_info where
  "example_blob = \<lparr> blob_buffer = [1, 2], filename = ''f.bin'', mimetype = ''image/png'' \<rparr>"

section \<open>Base64: decoding what \<^verbatim>\<open>btoa\<close> produced\<close>

lemma div_shift: "c < k \<Longrightarrow> (x * k + c) div k = (x::nat)"
  by simp

lemma mod_shift: "c < k \<Longrightarrow> (x * k + c) mod k = (c::nat)"
  by simp

lemma bytes3:
  fixes a b c :: nat
  assumes "b < 256" "c < 256"
  shows "((a * 256 + b) * 256 + c) div 256 div 256 = a"
    and "((a * 256 + b) * 256 + c) div 256 mod 256 = b"
    and "((a * 256 + b) * 256 + c) mod 256 = c"
  using assms by (simp_all only: div_shift mod_shift)

lemma bytes2:
  fixes a b :: nat
  assumes "b < 256"
  shows "(a * 256 + b) * 4 div 4 div 256 = a" and "(a * 256 + b) * 4 div 4 mod 256 = b"
  using assms by (simp_all only: div_shift mod_shift nonzero_mult_div_cancel_right)

lemma bound2: "a < 256 \<Longrightarrow> b < 256 \<Longrightarrow> (a * 256 + b) * 4 < (262144::nat)"
  by simp

lemma bound3:
  "a < 256 \<Longrightarrow> b < 256 \<Longrightarrow> c < 256 \<Longrightarrow> (a * 256 + b) * 256 + c < (16777216::nat)"
  by simp

lemma index_of_nth: "distinct xs \<Longrightarrow> n < length xs \<Longrightarrow> index_of (xs ! n) xs = Some n"
proof (induction xs arbitrary: n)
  case Nil
  then show ?case by simp
next
  case (Cons y ys)
  show ?case
  proof (cases n)
    case 0
    then show ?thesis by simp
  next
    case (Suc k)
    with Cons.prems have "k < length ys" "distinct ys" "ys ! k \<noteq> y"
      by auto
    with Cons.IH [of k] Suc show ?thesis
      by simp
  qed
qed

lemma b64_alphabet_distinct: "distinct b64_alphabet"
  unfolding b64_alphabet_def by code_simp

lemma b64_alphabet_length: "length b64_alphabet = 64"
  by (simp add: b64_alphabet_def)

lemma b64_index_char: "n < 64 \<Longrightarrow> b64_index (b64_char n) = Some n"
  by (simp add: b64_index_def b64_char_def index_of_nth b64_alphabet_distinct
        b64_alphabet_length)

lemma b64_char_not_pad:
  assumes "n < 64"
  shows "b64_char n \<noteq> CHR ''=''"
proof -
  from assms have "b64_char n \<in> set b64_alphabet"
    by (simp add: b64_char_def b64_alphabet_length)
  moreover have "CHR ''='' \<notin> set b64_alphabet"
    by (simp add: b64_alphabet_def)
  ultimately show ?thesis
    by auto
qed

lemma decode_group1:
  assumes "n < 4096"
  shows "base64_decode [b64_char (n div 64), b64_char (n mod 64), CHR ''='', CHR ''='']
         = Some [of_nat (n div 16)]"
proof -
  define i1 i2 where "i1 = n div 64" and "i2 = n mod 64"
  have lt: "i1 < 64" "i2 < 64"
    using assms by (simp_all add: i1_def i2_def less_mult_imp_div_less)
  have n: "i1 * 64 + i2 = n"
    by (simp add: i1_def i2_def)
  have "base64_decode [b64_char i1, b64_char i2, CHR ''='', CHR ''='']
        = Some [of_nat ((i1 * 64 + i2) div 16)]"
    using lt by (simp add: b64_index_char)
  then show ?thesis
    unfolding n unfolding i1_def i2_def .
qed

lemma decode_group2:
  assumes "n < 262144"
  shows "base64_decode [b64_char (n div 64 div 64), b64_char (n div 64 mod 64),
                        b64_char (n mod 64), CHR ''='']
         = Some [of_nat (n div 4 div 256), of_nat (n div 4 mod 256)]"
proof -
  define i1 i2 i3 where "i1 = n div 64 div 64" and "i2 = n div 64 mod 64" and "i3 = n mod 64"
  have "n div 64 < 64 * 64"
    using assms by (simp add: less_mult_imp_div_less)
  then have lt: "i1 < 64" "i2 < 64" "i3 < 64"
    by (simp_all add: i1_def i2_def i3_def less_mult_imp_div_less)
  have n: "(i1 * 64 + i2) * 64 + i3 = n"
    by (simp add: i1_def i2_def i3_def)
  have "base64_decode [b64_char i1, b64_char i2, b64_char i3, CHR ''='']
        = Some [of_nat (((i1 * 64 + i2) * 64 + i3) div 4 div 256),
                of_nat (((i1 * 64 + i2) * 64 + i3) div 4 mod 256)]"
    using lt by (simp add: b64_index_char b64_char_not_pad Let_def)
  then show ?thesis
    unfolding n unfolding i1_def i2_def i3_def .
qed

lemma decode_group3:
  assumes "n < 16777216"
  shows "base64_decode (b64_char (n div 64 div 64 div 64) # b64_char (n div 64 div 64 mod 64)
                        # b64_char (n div 64 mod 64) # b64_char (n mod 64) # rest)
         = map_option (\<lambda>bytes. of_nat (n div 256 div 256) # of_nat (n div 256 mod 256)
                                 # of_nat (n mod 256) # bytes) (base64_decode rest)"
proof -
  define i1 i2 i3 i4 where "i1 = n div 64 div 64 div 64" and "i2 = n div 64 div 64 mod 64"
    and "i3 = n div 64 mod 64" and "i4 = n mod 64"
  have "n div 64 < 64 * (64 * 64)"
    using assms by (simp add: less_mult_imp_div_less)
  then have "n div 64 div 64 < 64 * 64"
    by (simp add: less_mult_imp_div_less)
  then have lt: "i1 < 64" "i2 < 64" "i3 < 64" "i4 < 64"
    by (simp_all add: i1_def i2_def i3_def i4_def less_mult_imp_div_less)
  have n: "((i1 * 64 + i2) * 64 + i3) * 64 + i4 = n"
    by (simp add: i1_def i2_def i3_def i4_def)
  have "base64_decode (b64_char i1 # b64_char i2 # b64_char i3 # b64_char i4 # rest)
        = map_option (\<lambda>bytes. of_nat ((((i1 * 64 + i2) * 64 + i3) * 64 + i4) div 256 div 256)
                         # of_nat ((((i1 * 64 + i2) * 64 + i3) * 64 + i4) div 256 mod 256)
                         # of_nat ((((i1 * 64 + i2) * 64 + i3) * 64 + i4) mod 256) # bytes)
            (base64_decode rest)"
    using lt by (simp add: b64_index_char b64_char_not_pad Let_def split: option.split)
  then show ?thesis
    unfolding n unfolding i1_def i2_def i3_def i4_def .
qed

lemma decode_btoa: "base64_decode (btoa s) = Some (map (\<lambda>c. of_nat (of_char c)) s)"
proof (induction s rule: btoa.induct)
  case 1
  then show ?case by simp
next
  case (2 a)
  define n :: nat where "n = of_char a * 16"
  have n: "n < 4096" "n div 16 = of_char a"
    by (simp_all add: n_def)
  have "btoa [a] = [b64_char (n div 64), b64_char (n mod 64), CHR ''='', CHR ''='']"
    by (simp only: btoa.simps Let_def n_def)
  then have "base64_decode (btoa [a]) = Some [of_nat (of_char a)]"
    by (simp only: decode_group1 [OF n(1)] n(2))
  then show ?case
    by (simp only: list.map)
next
  case (3 a b)
  define n :: nat where "n = (of_char a * 256 + of_char b) * 4"
  have a: "(of_char a :: nat) < 256" and b: "(of_char b :: nat) < 256"
    by simp_all
  have n: "n < 262144" "n div 4 div 256 = of_char a" "n div 4 mod 256 = of_char b"
    unfolding n_def by (rule bound2 [OF a b] bytes2 [OF b])+
  have "btoa [a, b] = [b64_char (n div 64 div 64), b64_char (n div 64 mod 64),
                       b64_char (n mod 64), CHR ''='']"
    by (simp only: btoa.simps Let_def n_def)
  then have "base64_decode (btoa [a, b]) = Some [of_nat (of_char a), of_nat (of_char b)]"
    by (simp only: decode_group2 [OF n(1)] n(2,3))
  then show ?case
    by (simp only: list.map)
next
  case (4 a b c rest)
  define n :: nat where "n = (of_char a * 256 + of_char b) * 256 + of_char c"
  have a: "(of_char a :: nat) < 256" and b: "(of_char b :: nat) < 256"
    and c: "(of_char c :: nat) < 256"
    by simp_all
  have n: "n < 16777216" "n div 256 div 256 = of_char a" "n div 256 mod 256 = of_char b"
    "n mod 256 = of_char c"
    unfolding n_def by (rule bound3 [OF a b c] bytes3 [OF b c])+
  have "btoa (a # b # c # rest) =
          b64_char (n div 64 div 64 div 64) # b64_char (n div 64 div 64 mod 64)
          # b64_char (n div 64 mod 64) # b64_char (n mod 64) # btoa rest"
    by (simp only: btoa.simps Let_def n_def append.simps)
  then have "base64_decode (btoa (a # b # c # rest))
        = Some (of_nat (of_char a) # of_nat (of_char b) # of_nat (of_char c)
                # map (\<lambda>c. of_nat (of_char c)) rest)"
    by (simp only: decode_group3 [OF n(1)] n(2,3,4) "4.IH" option.map)
  then show ?case
    by (simp only: list.map)
qed

lemma of_char_fromCharCode: "of_char (fromCharCode b) = unat b"
proof -
  have "unat b < 2 ^ LENGTH(8)"
    by (rule unsigned_less)
  then show ?thesis
    by (simp add: fromCharCode_def)
qed

lemma byte_of_fromCharCode: "of_nat (of_char (fromCharCode b)) = b"
  by (simp only: of_char_fromCharCode) simp

lemma binary_loop_eq: "binary_loop bytes binary = binary @ map fromCharCode bytes"
  by (induction bytes arbitrary: binary) simp_all

lemma decode_binary: "base64_decode (btoa (binary_loop bytes [])) = Some bytes"
proof -
  have "map (\<lambda>c. of_nat (of_char c)) (map fromCharCode bytes) = bytes"
    by (simp add: byte_of_fromCharCode comp_def)
  then show ?thesis
    by (simp add: decode_btoa binary_loop_eq)
qed

section \<open>The filter\<close>

text \<open>
  Claim C7. Round trip: for every byte buffer, every MIME type and both values of
  \<open>trust\<close>, \<^verbatim>\<open>bufferToUrl\<close> yields the string \<^verbatim>\<open>data:<mimeType>;base64,<payload>\<close>, and
  decoding the payload as base64 gives back exactly the bytes of the buffer. The bytes
  \<open>[0x01, 0x02]\<close> with \<^verbatim>\<open>image/png\<close> are one instance.
\<close>

theorem bufferToUrl_roundtrip:
  "\<exists>payload.
     resource_string (fst (bufferToUrl (Buffer bytes) mimeType trust))
       = ''data:'' @ mimeType @ '';base64,'' @ payload
     \<and> base64_decode payload = Some bytes"
proof (intro exI conjI)
  show "resource_string (fst (bufferToUrl (Buffer bytes) mimeType trust))
        = ''data:'' @ mimeType @ '';base64,'' @ btoa (binary_loop bytes [])"
    by (simp add: resource_string_def Let_def)
  show "base64_decode (btoa (binary_loop bytes [])) = Some bytes"
    by (rule decode_binary)
qed

theorem bufferToUrl_roundtrip_witness:
  "\<exists>payload.
     resource_string (fst (bufferToUrl (Buffer [1, 2]) ''image/png'' True))
       = ''data:image/png;base64,'' @ payload
     \<and> base64_decode payload = Some [1, 2]"
  using bufferToUrl_roundtrip [of "[1, 2]" "''image/png''" True] by simp

lemma bufferToUrl_two_bytes:
  "bufferToUrl (Buffer [1, 2]) ''image/png'' True = (Trusted ''data:image/png;base64,AQI='', [])"
  by (simp add: b64_char_def b64_alphabet_def fromCharCode_def)

text \<open>
  Against claim C8 as stated: a present buffer of length zero is not answered with the
  empty string and nothing is logged; the result is the data URI with an empty payload.
\<close>

theorem bufferToUrl_empty_buffer_not_empty_string:
  "resource_string (fst (bufferToUrl (Buffer []) ''image/png'' True)) = ''data:image/png;base64,''
   \<and> resource_string (fst (bufferToUrl (Buffer []) ''image/png'' True)) \<noteq> ''''
   \<and> snd (bufferToUrl (Buffer []) ''image/png'' True) = []"
  by (simp add: resource_string_def)

text \<open>
  Claim C8, amended. With an absent buffer (\<^verbatim>\<open>null\<close> or \<^verbatim>\<open>undefined\<close>)
  \<^verbatim>\<open>bufferToUrl\<close> does not throw: it logs the error and returns the empty string. With
  a present buffer of length zero it does not throw either, logs nothing and returns
  the data URI with an empty payload, \<^verbatim>\<open>data:<mimeType>;base64,\<close>, trusted when
  \<open>trust\<close> is true.
\<close>

theorem bufferToUrl_absent_or_empty:
  "(buf = Undefined \<or> buf = Null \<longrightarrow>
      bufferToUrl buf mimeType trust
        = (Plain '''', [LogError logTag ''Could not apply bufferToUrl filter: buffer is'' buf]))
   \<and> bufferToUrl (Buffer []) mimeType trust
        = ((if trust then Trusted else Plain) (''data:'' @ mimeType @ '';base64,''), [])"
  by auto

theorem bufferToUrl_absent_or_empty_witness:
  "(Null = Undefined \<or> Null = Null)
   \<and> bufferToUrl Null ''image/png'' True
        = (Plain '''', [LogError logTag ''Could not apply bufferToUrl filter: buffer is'' Null])
   \<and> bufferToUrl (Buffer []) ''image/png'' True = (Trusted ''data:image/png;base64,'', [])"
  using bufferToUrl_absent_or_empty [of Null "''image/png''" True] by simp

section \<open>The controller: what every event preserves\<close>

lemma new_system_simps [simp]:
  "self (new_system f c) = c" "timers (new_system f c) = []" "effects (new_system f c) = []"
  "blobRequests (new_system f c) = 0" "thumbnailRequests (new_system f c) = 0"
  "nextTimer (new_system f c) = 0" "loadingThumbnailTimeout (new_system f c) = None"
  "imageFormat_thumbnail (new_system f c) = f"
  by (simp_all add: new_system_def)

lemma controller_fields:
  assumes "controller f msg rcv = Inr c"
  shows "message c = msg" "receiver c = rcv" "\<not> downloading c" "\<not> thumbnailDownloading c"
    "thumbnail c = None" "\<not> wasInView c" "thumbnailFormat c = f"
    "location c = msg_location msg" "downloaded c = (msg_location msg \<noteq> None)"
  using assms by (auto simp: controller_def Let_def split: if_splits)

lemma run_task_case:
  "run_task k sys =
     (case k of RequestThumbnailTask \<Rightarrow> requestThumbnail_task sys
              | StoreThumbnailTask fetched \<Rightarrow> storeThumbnail_task fetched sys)"
  by (cases k) simp_all

lemmas op_defs = thumbnailInView_def timeout_cancel_def timeout_call_def
  download_def download_then_def download_catch_def playAudio_def
  requestThumbnail_task_def requestThumbnail_then_def storeThumbnail_task_def
  run_task_case Let_def

lemmas example_defs = session_def controller_def new_system_def remote_thumbnail_message_def
  example_blob_def

lemma blob_inv_step: "blob_inv sys \<Longrightarrow> blob_inv (step e sys)"
  by (cases e)
     (auto simp: blob_inv_def op_defs split: option.splits task.splits prod.splits if_splits)

lemma bindings_inv_step: "bindings_inv f m r sys \<Longrightarrow> bindings_inv f m r (step e sys)"
  by (cases e)
     (auto simp: bindings_inv_def op_defs split: option.splits task.splits prod.splits if_splits)

lemma timers_fresh_step: "timers_fresh sys \<Longrightarrow> timers_fresh (step e sys)"
  by (cases e)
     (auto simp: timers_fresh_def op_defs less_Suc_eq
           split: option.splits task.splits prod.splits if_splits)

lemma fetch_timer_inv_step: "fetch_timer_inv sys \<Longrightarrow> fetch_timer_inv (step e sys)"
  by (cases e)
     (auto simp: fetch_timer_inv_def op_defs
           split: option.splits task.splits prod.splits if_splits)

lemma embedded_inv_step:
  assumes "msg_thumbnail (message (self sys)) = Some th" "img th = Some bytes"
    and "embedded_inv sys"
  shows "embedded_inv (step e sys)"
  using assms
  by (cases e)
     (auto simp: embedded_inv_def op_defs split: option.splits task.splits prod.splits if_splits)

lemma blob_inv_run: "blob_inv sys \<Longrightarrow> blob_inv (run es sys)"
  by (induction es arbitrary: sys) (simp_all add: blob_inv_step)

lemma bindings_inv_run: "bindings_inv f m r sys \<Longrightarrow> bindings_inv f m r (run es sys)"
  by (induction es arbitrary: sys) (simp_all add: bindings_inv_step)

lemma timers_fresh_run: "timers_fresh sys \<Longrightarrow> timers_fresh (run es sys)"
  by (induction es arbitrary: sys) (simp_all add: timers_fresh_step)

lemma fetch_timer_inv_run: "fetch_timer_inv sys \<Longrightarrow> fetch_timer_inv (run es sys)"
  by (induction es arbitrary: sys) (simp_all add: fetch_timer_inv_step)

lemma embedded_inv_run:
  assumes "msg_thumbnail m = Some th" "img th = Some bytes"
  shows "bindings_inv f m r sys \<Longrightarrow> embedded_inv sys \<Longrightarrow> embedded_inv (run es sys)"
proof (induction es arbitrary: sys)
  case Nil
  then show ?case by simp
next
  case (Cons e es)
  from Cons.prems(1) have "msg_thumbnail (message (self sys)) = Some th"
    using assms(1) by (simp add: bindings_inv_def)
  then have "embedded_inv (step e sys)"
    using assms(2) Cons.prems(2) by (rule embedded_inv_step)
  moreover have "bindings_inv f m r (step e sys)"
    using Cons.prems(1) by (rule bindings_inv_step)
  ultimately show ?case
    using Cons.IH by simp
qed

lemma new_system_blob_inv:
  "controller f m r = Inr c \<Longrightarrow> blob_inv (new_system f c)"
  by (simp add: blob_inv_def controller_fields)

lemma new_system_bindings_inv:
  "controller f m r = Inr c \<Longrightarrow> bindings_inv f m r (new_system f c)"
  by (simp add: bindings_inv_def controller_fields)

lemma new_system_timers_fresh: "timers_fresh (new_system f c)"
  by (simp add: timers_fresh_def)

lemma new_system_fetch_timer_inv: "fetch_timer_inv (new_system f c)"
  by (simp add: fetch_timer_inv_def)

lemma new_system_embedded_inv:
  "controller f m r = Inr c \<Longrightarrow> embedded_inv (new_system f c)"
  by (simp add: embedded_inv_def controller_fields)

lemma find_timer_fresh: "\<forall>x \<in> set ts. fst x < n \<Longrightarrow> find_timer n ts = None"
  by (induction ts) auto

lemma find_timer_filter:
  "find_timer n (filter (\<lambda>x. fst x \<noteq> t) ts) = (if n = t then None else find_timer n ts)"
  by (induction ts) auto

lemma find_timer_append:
  "find_timer n (ts @ us)
   = (case find_timer n ts of None \<Rightarrow> find_timer n us | Some k \<Rightarrow> Some k)"
  by (induction ts) auto

lemma find_timer_mem: "find_timer t ts = Some k \<Longrightarrow> \<exists>d. (t, d, k) \<in> set ts"
  by (induction ts) (auto split: if_splits)

lemma no_fetch_timer_step:
  assumes "no_fetch_timer sys" "env_event e"
  shows "no_fetch_timer (step e sys)
    \<and> filter is_RequestThumbnail (effects (step e sys)) = filter is_RequestThumbnail (effects sys)"
proof (cases e)
  case (TimerFires t)
  show ?thesis
  proof (cases "find_timer t (timers sys)")
    case None
    with TimerFires assms show ?thesis by simp
  next
    case (Some k)
    then obtain d where "(t, d, k) \<in> set (timers sys)"
      by (auto dest: find_timer_mem)
    with assms(1) obtain fetched where k: "k = StoreThumbnailTask fetched"
      by (cases k) (auto simp: no_fetch_timer_def)
    obtain r logged where b: "bufferToUrl fetched (imageFormat_thumbnail sys) True = (r, logged)"
      by (cases "bufferToUrl fetched (imageFormat_thumbnail sys) True")
    then have "filter is_RequestThumbnail logged = []"
      by (cases fetched) (auto simp: Let_def split: if_splits)
    with TimerFires Some k assms(1) b show ?thesis
      by (auto simp: no_fetch_timer_def storeThumbnail_task_def)
  qed
qed (use assms in \<open>auto simp: no_fetch_timer_def op_defs split: option.splits\<close>)

lemma no_fetch_timer_run:
  "no_fetch_timer sys \<Longrightarrow> list_all env_event es \<Longrightarrow>
   filter is_RequestThumbnail (effects (run es sys)) = filter is_RequestThumbnail (effects sys)"
proof (induction es arbitrary: sys)
  case Nil
  then show ?case by simp
next
  case (Cons e es)
  then have "no_fetch_timer (step e sys)"
    and "filter is_RequestThumbnail (effects (step e sys)) = filter is_RequestThumbnail (effects sys)"
    using no_fetch_timer_step [of sys e] by simp_all
  with Cons show ?case by simp
qed

section \<open>Downloading the content\<close>

text \<open>
  Claim C1. In every state in which \<^verbatim>\<open>downloading\<close> is true, \<^verbatim>\<open>download()\<close> only
  writes a debug line to the log: no request goes out, no promise is added, and the
  controller with all its fields is as before. As a consequence, after any sequence of
  events on a controller just created, at most one promise of \<^verbatim>\<open>requestBlob\<close> is
  outstanding.
\<close>

theorem download_guard:
  "(downloading (self sys) \<longrightarrow>
      download sys
        = sys\<lparr>effects := effects sys @ [LogDebug ''download already in progress...'']\<rparr>)
   \<and> (controller imageFormat msg rcv = Inr c \<longrightarrow>
        blobRequests (run es (new_system imageFormat c)) \<le> 1)"
proof (intro conjI impI)
  assume "downloading (self sys)"
  then show "download sys
      = sys\<lparr>effects := effects sys @ [LogDebug ''download already in progress...'']\<rparr>"
    by (simp add: download_def)
next
  assume "controller imageFormat msg rcv = Inr c"
  then have "blob_inv (run es (new_system imageFormat c))"
    by (intro blob_inv_run new_system_blob_inv)
  then show "blobRequests (run es (new_system imageFormat c)) \<le> 1"
    by (simp add: blob_inv_def split: if_splits)
qed

theorem download_guard_witness:
  "downloading (self (projr (session ''image/jpeg'' remote_thumbnail_message ''r1''
      [CallDownload])))
   \<and> download (projr (session ''image/jpeg'' remote_thumbnail_message ''r1'' [CallDownload]))
       = (projr (session ''image/jpeg'' remote_thumbnail_message ''r1'' [CallDownload]))
           \<lparr>effects := effects (projr (session ''image/jpeg'' remote_thumbnail_message ''r1''
                                     [CallDownload]))
                         @ [LogDebug ''download already in progress...'']\<rparr>
   \<and> controller ''image/jpeg'' remote_thumbnail_message ''r1''
       = Inr (projr (controller ''image/jpeg'' remote_thumbnail_message ''r1''))
   \<and> blobRequests (run [CallDownload, CallDownload]
        (new_system ''image/jpeg''
           (projr (controller ''image/jpeg'' remote_thumbnail_message ''r1''))))
       \<le> 1"
  using download_guard
    [of "projr (session ''image/jpeg'' remote_thumbnail_message ''r1'' [CallDownload])"
      "''image/jpeg''" remote_thumbnail_message "''r1''"
      "projr (controller ''image/jpeg'' remote_thumbnail_message ''r1'')"
      "[CallDownload, CallDownload]"]
  by (simp add: example_defs download_def)

text \<open>
  Against claim C2 as stated: the \<^verbatim>\<open>catch\<close> callback does not assign
  \<^verbatim>\<open>downloaded\<close>. After a download that succeeded, a second download that fails with
  \<^verbatim>\<open>blobDecryptFailed\<close> leaves \<^verbatim>\<open>downloaded\<close> true.
\<close>

theorem download_failure_keeps_downloaded:
  "\<not> isl (session ''image/jpeg'' remote_thumbnail_message ''r1''
            [CallDownload, BlobResolved example_blob, CallDownload,
             BlobRejected ''blobDecryptFailed''])
   \<and> downloaded (self (projr (session ''image/jpeg'' remote_thumbnail_message ''r1''
            [CallDownload, BlobResolved example_blob, CallDownload,
             BlobRejected ''blobDecryptFailed''])))"
  by (simp add: example_defs op_defs)

text \<open>
  Claim C2, amended. When \<^verbatim>\<open>download()\<close> is called with \<^verbatim>\<open>downloading\<close> false and
  the fetch then fails, the resulting state has \<^verbatim>\<open>downloading\<close> false and
  \<^verbatim>\<open>downloaded\<close> as it was before the call (the failure path never assigns it, so
  it is false when it was false), and besides the request exactly one alert has been
  shown, whose text is \<^verbatim>\<open>error.BLOB_DECRYPT_FAILED\<close> for the reason
  \<^verbatim>\<open>blobDecryptFailed\<close>, \<^verbatim>\<open>error.BLOB_DOWNLOAD_FAILED\<close> for \<^verbatim>\<open>blobDownloadFailed\<close> and
  \<^verbatim>\<open>error.ERROR_OCCURRED\<close> for any other reason.
\<close>

theorem download_failure:
  assumes "\<not> downloading (self sys)"
    and "sys' = step (BlobRejected error) (step CallDownload sys)"
  shows "\<not> downloading (self sys')
    \<and> downloaded (self sys') = downloaded (self sys)
    \<and> effects sys' = effects sys
         @ [RequestBlob (msg_id (message (self sys))) (receiver (self sys)),
            ShowAlert ''common.ERROR''
              (if error = ''blobDecryptFailed'' then ''error.BLOB_DECRYPT_FAILED''
               else if error = ''blobDownloadFailed'' then ''error.BLOB_DOWNLOAD_FAILED''
               else ''error.ERROR_OCCURRED'')
              ''common.OK'']"
  using assms by (simp add: download_def download_catch_def Let_def)

theorem download_failure_witness:
  "\<not> downloading (self (new_system ''image/jpeg''
        (projr (controller ''image/jpeg'' remote_thumbnail_message ''r1''))))
   \<and> \<not> downloading (self (step (BlobRejected ''blobDecryptFailed'') (step CallDownload
        (new_system ''image/jpeg''
           (projr (controller ''image/jpeg'' remote_thumbnail_message ''r1''))))))
   \<and> \<not> downloaded (self (step (BlobRejected ''blobDecryptFailed'') (step CallDownload
        (new_system ''image/jpeg''
           (projr (controller ''image/jpeg'' remote_thumbnail_message ''r1''))))))
   \<and> effects (step (BlobRejected ''blobDecryptFailed'') (step CallDownload
        (new_system ''image/jpeg''
           (projr (controller ''image/jpeg'' remote_thumbnail_message ''r1'')))))
      = [RequestBlob ''m1'' ''r1'',
         ShowAlert ''common.ERROR'' ''error.BLOB_DECRYPT_FAILED'' ''common.OK'']"
  using download_failure
    [of "new_system ''image/jpeg''
           (projr (controller ''image/jpeg'' remote_thumbnail_message ''r1''))"
      "step (BlobRejected ''blobDecryptFailed'') (step CallDownload
        (new_system ''image/jpeg''
           (projr (controller ''image/jpeg'' remote_thumbnail_message ''r1''))))"
      "''blobDecryptFailed''"]
  by (simp add: example_defs)

section \<open>The thumbnail\<close>

text \<open>
  Claim C3, evaluated on the code. The message has a thumbnail that is not embedded; it
  comes into view, the timer fires, the request goes out and its promise is rejected.
  No callback runs on the rejection: no alert is shown and \<^verbatim>\<open>thumbnail\<close> is still
  \<^verbatim>\<open>null\<close>, but \<^verbatim>\<open>thumbnailDownloading\<close> is still true.
\<close>

theorem thumbnail_rejection_keeps_flag:
  "\<not> isl (session ''image/jpeg'' remote_thumbnail_message ''r1''
            [CallThumbnailInView True, TimerFires 0, ThumbnailRejected ''failed''])
   \<and> thumbnailDownloading (self (projr (session ''image/jpeg'' remote_thumbnail_message ''r1''
            [CallThumbnailInView True, TimerFires 0, ThumbnailRejected ''failed''])))
   \<and> thumbnail (self (projr (session ''image/jpeg'' remote_thumbnail_message ''r1''
            [CallThumbnailInView True, TimerFires 0, ThumbnailRejected ''failed''])))
       = None
   \<and> filter is_ShowAlert (effects (projr (session ''image/jpeg'' remote_thumbnail_message
            ''r1'' [CallThumbnailInView True, TimerFires 0, ThumbnailRejected ''failed''])))
       = []"
  by (simp add: example_defs op_defs)

text \<open>
  Claim C4, evaluated on the code. The message comes into view, the timer fires and the
  request goes out; the message leaves the view, which resets \<^verbatim>\<open>thumbnail\<close> to
  \<^verbatim>\<open>null\<close>; then the promise of the request resolves with two bytes and the callback
  it schedules runs. The completion is not discarded: the thumbnail is stored although
  the message is out of view.
\<close>

theorem late_thumbnail_is_stored:
  "\<not> isl (session ''image/jpeg'' remote_thumbnail_message ''r1''
            [CallThumbnailInView True, TimerFires 0, CallThumbnailInView False,
             ThumbnailResolved (Buffer [1, 2]), TimerFires 1])
   \<and> \<not> wasInView (self (projr (session ''image/jpeg'' remote_thumbnail_message ''r1''
            [CallThumbnailInView True, TimerFires 0, CallThumbnailInView False,
             ThumbnailResolved (Buffer [1, 2]), TimerFires 1])))
   \<and> thumbnail (self (projr (session ''image/jpeg'' remote_thumbnail_message ''r1''
            [CallThumbnailInView True, TimerFires 0, CallThumbnailInView False,
             ThumbnailResolved (Buffer [1, 2]), TimerFires 1])))
       = Some (Trusted ''data:image/jpeg;base64,AQI='')"
  by (simp add: example_defs op_defs b64_char_def b64_alphabet_def fromCharCode_def)

text \<open>
  After the exit and the re-entry of a message whose request is still in flight, the
  timer of the re-entry sends a second request: two are outstanding at once.
\<close>

lemma two_thumbnail_requests_outstanding:
  "\<not> isl (session ''image/jpeg'' remote_thumbnail_message ''r1''
            [CallThumbnailInView True, TimerFires 0, CallThumbnailInView False,
             CallThumbnailInView True, TimerFires 1])
   \<and> thumbnailRequests (projr (session ''image/jpeg'' remote_thumbnail_message ''r1''
            [CallThumbnailInView True, TimerFires 0, CallThumbnailInView False,
             CallThumbnailInView True, TimerFires 1])) = 2"
  by (simp add: example_defs op_defs)

text \<open>
  The same in every state reached from a controller just created, with the message in
  view and a request in flight: the exit resets \<^verbatim>\<open>thumbnail\<close> and
  \<^verbatim>\<open>thumbnailDownloading\<close> and leaves the request outstanding; when its promise
  resolves, the callback it schedules stores the thumbnail, the message being out of
  view. Nothing in the callbacks tests whether the request is still wanted.
\<close>

lemma exit_does_not_discard_late_thumbnail:
  assumes "controller imageFormat msg rcv = Inr c"
    and "sys = run es (new_system imageFormat c)"
    and "msg_thumbnail msg \<noteq> None"
    and "wasInView (self sys)"
    and "0 < thumbnailRequests sys"
    and "sys1 = step (CallThumbnailInView False) sys"
    and "sys2 = step (ThumbnailResolved fetched) sys1"
    and "sys3 = step (TimerFires (nextTimer sys1)) sys2"
  shows "thumbnail (self sys1) = None \<and> \<not> thumbnailDownloading (self sys1)
    \<and> thumbnailRequests sys1 = thumbnailRequests sys
    \<and> self sys2 = self sys1
    \<and> \<not> wasInView (self sys3)
    \<and> thumbnail (self sys3) = Some (fst (bufferToUrl fetched imageFormat True))
    \<and> \<not> thumbnailDownloading (self sys3)"
proof -
  have b: "bindings_inv imageFormat msg rcv sys"
    unfolding assms(2) using assms(1) by (intro bindings_inv_run new_system_bindings_inv)
  have "timers_fresh sys"
    unfolding assms(2) by (intro timers_fresh_run new_system_timers_fresh)
  then have "timers_fresh sys1"
    unfolding assms(6) by (rule timers_fresh_step)
  then have fresh: "find_timer (nextTimer sys1) (timers sys1) = None"
    by (simp add: timers_fresh_def find_timer_fresh)
  obtain th where th: "msg_thumbnail (message (self sys)) = Some th"
    using b assms(3) by (auto simp: bindings_inv_def)
  have s1: "self sys1 = (self sys)\<lparr>wasInView := False, thumbnailDownloading := False,
                                     thumbnail := None\<rparr>"
    "thumbnailRequests sys1 = thumbnailRequests sys" "imageFormat_thumbnail sys1 = imageFormat"
    using th assms(4) b
    by (auto simp: assms(6) thumbnailInView_def timeout_cancel_def Let_def bindings_inv_def
          split: option.splits)
  have s2: "self sys2 = self sys1" "imageFormat_thumbnail sys2 = imageFormat"
    "find_timer (nextTimer sys1) (timers sys2) = Some (StoreThumbnailTask fetched)"
    using assms(5) s1 fresh
    by (simp_all add: assms(7) requestThumbnail_then_def timeout_call_def find_timer_append)
  have s3: "self sys3
      = (self sys2)\<lparr>thumbnail := Some (fst (bufferToUrl fetched imageFormat True)),
                      thumbnailDownloading := False\<rparr>"
    using s2 by (simp add: assms(8) storeThumbnail_task_def split: prod.splits)
  show ?thesis
    using s1 s2 s3 by simp
qed

lemma exit_does_not_discard_late_thumbnail_instance:
  "controller ''image/jpeg'' remote_thumbnail_message ''r1''
     = Inr (projr (controller ''image/jpeg'' remote_thumbnail_message ''r1''))
   \<and> msg_thumbnail remote_thumbnail_message \<noteq> None
   \<and> wasInView (self (run [CallThumbnailInView True, TimerFires 0]
        (new_system ''image/jpeg''
           (projr (controller ''image/jpeg'' remote_thumbnail_message ''r1'')))))
   \<and> 0 < thumbnailRequests (run [CallThumbnailInView True, TimerFires 0]
        (new_system ''image/jpeg''
           (projr (controller ''image/jpeg'' remote_thumbnail_message ''r1''))))
   \<and> thumbnail (self (step (TimerFires 1) (step (ThumbnailResolved (Buffer [1, 2]))
        (step (CallThumbnailInView False) (run [CallThumbnailInView True, TimerFires 0]
        (new_system ''image/jpeg''
           (projr (controller ''image/jpeg'' remote_thumbnail_message ''r1''))))))))
      = Some (fst (bufferToUrl (Buffer [1, 2]) ''image/jpeg'' True))"
  using exit_does_not_discard_late_thumbnail
    [of "''image/jpeg''" remote_thumbnail_message "''r1''"
      "projr (controller ''image/jpeg'' remote_thumbnail_message ''r1'')"
      "run [CallThumbnailInView True, TimerFires 0]
        (new_system ''image/jpeg''
           (projr (controller ''image/jpeg'' remote_thumbnail_message ''r1'')))"
      "[CallThumbnailInView True, TimerFires 0]"
      "step (CallThumbnailInView False) (run [CallThumbnailInView True, TimerFires 0]
        (new_system ''image/jpeg''
           (projr (controller ''image/jpeg'' remote_thumbnail_message ''r1''))))"
      "step (ThumbnailResolved (Buffer [1, 2]))
        (step (CallThumbnailInView False) (run [CallThumbnailInView True, TimerFires 0]
        (new_system ''image/jpeg''
           (projr (controller ''image/jpeg'' remote_thumbnail_message ''r1'')))))"
      "Buffer [1, 2]"
      "step (TimerFires 1) (step (ThumbnailResolved (Buffer [1, 2]))
        (step (CallThumbnailInView False) (run [CallThumbnailInView True, TimerFires 0]
        (new_system ''image/jpeg''
           (projr (controller ''image/jpeg'' remote_thumbnail_message ''r1''))))))"]
  by (simp add: example_defs op_defs)

text \<open>
  Claim C5. The message has an embedded thumbnail and is out of view, in any state
  reached from a controller just created. Then \<^verbatim>\<open>thumbnailInView(true)\<close> changes
  two fields of the controller and nothing else: \<^verbatim>\<open>wasInView\<close> becomes true and
  \<^verbatim>\<open>thumbnail\<close> becomes the trusted string \<^verbatim>\<open>data:<thumbnailFormat>;base64,<payload>\<close>
  whose payload is the base64 encoding of the embedded bytes, which is what
  \<^verbatim>\<open>bufferToUrl(img, thumbnailFormat, true)\<close> returns, logging nothing. No timer is
  registered, no request is made, and \<^verbatim>\<open>thumbnailDownloading\<close> is false before and
  after.
\<close>

theorem embedded_thumbnail_shown_at_once:
  assumes "controller imageFormat msg rcv = Inr c"
    and "msg_thumbnail msg = Some th" and "img th = Some bytes"
    and "sys = run es (new_system imageFormat c)"
    and "\<not> wasInView (self sys)"
  shows "thumbnailInView True sys
      = sys\<lparr>self := (self sys)\<lparr>wasInView := True,
                thumbnail := Some (Trusted (''data:'' @ thumbnailFormat (self sys)
                                     @ '';base64,'' @ btoa (map fromCharCode bytes)))\<rparr>\<rparr>
    \<and> bufferToUrl (Buffer bytes) (thumbnailFormat (self sys)) True
        = (Trusted (''data:'' @ thumbnailFormat (self sys)
                      @ '';base64,'' @ btoa (map fromCharCode bytes)), [])
    \<and> base64_decode (btoa (map fromCharCode bytes)) = Some bytes
    \<and> thumbnailFormat (self sys) = imageFormat
    \<and> \<not> thumbnailDownloading (self sys)
    \<and> \<not> thumbnailDownloading (self (thumbnailInView True sys))"
proof -
  have b: "bindings_inv imageFormat msg rcv sys"
    unfolding assms(4) using assms(1) by (intro bindings_inv_run new_system_bindings_inv)
  have "embedded_inv sys"
    unfolding assms(4) using assms(1,2,3)
    by (intro embedded_inv_run [where m = msg and f = imageFormat and r = rcv]
          new_system_bindings_inv new_system_embedded_inv)
  with assms(5) have e: "thumbnail (self sys) = None" "\<not> thumbnailDownloading (self sys)"
    by (simp_all add: embedded_inv_def)
  have d: "base64_decode (btoa (map fromCharCode bytes)) = Some bytes"
    using decode_binary [of bytes] by (simp add: binary_loop_eq)
  show ?thesis
    using b e d assms(2,3,5)
    by (simp add: thumbnailInView_def bindings_inv_def Let_def binary_loop_eq)
qed

theorem embedded_thumbnail_shown_at_once_witness:
  "controller ''image/jpeg'' embedded_thumbnail_message ''r1''
     = Inr (projr (controller ''image/jpeg'' embedded_thumbnail_message ''r1''))
   \<and> msg_thumbnail embedded_thumbnail_message
       = Some \<lparr> img = Some [1, 2], width = ''10'', height = ''20'' \<rparr>
   \<and> img \<lparr> img = Some [1, 2], width = ''10'', height = ''20'' \<rparr> = Some [1, 2]
   \<and> \<not> wasInView (self (run [CallThumbnailInView True, CallThumbnailInView False]
        (new_system ''image/jpeg''
           (projr (controller ''image/jpeg'' embedded_thumbnail_message ''r1'')))))
   \<and> thumbnail (self (thumbnailInView True
        (run [CallThumbnailInView True, CallThumbnailInView False]
          (new_system ''image/jpeg''
             (projr (controller ''image/jpeg'' embedded_thumbnail_message ''r1''))))))
      = Some (Trusted ''data:image/jpeg;base64,AQI='')
   \<and> bufferToUrl (Buffer [1, 2]) ''image/jpeg'' True
      = (Trusted ''data:image/jpeg;base64,AQI='', [])
   \<and> base64_decode ''AQI='' = Some [1, 2]
   \<and> \<not> thumbnailDownloading (self (thumbnailInView True
        (run [CallThumbnailInView True, CallThumbnailInView False]
          (new_system ''image/jpeg''
             (projr (controller ''image/jpeg'' embedded_thumbnail_message ''r1''))))))"
  using embedded_thumbnail_shown_at_once
    [of "''image/jpeg''" embedded_thumbnail_message "''r1''"
      "projr (controller ''image/jpeg'' embedded_thumbnail_message ''r1'')"
      "\<lparr> img = Some [1, 2], width = ''10'', height = ''20'' \<rparr>" "[1, 2]"
      "run [CallThumbnailInView True, CallThumbnailInView False]
        (new_system ''image/jpeg''
           (projr (controller ''image/jpeg'' embedded_thumbnail_message ''r1'')))"
      "[CallThumbnailInView True, CallThumbnailInView False]"]
  by (simp add: example_defs embedded_thumbnail_message_def op_defs b64_char_def
        b64_alphabet_def fromCharCode_def)

text \<open>
  Claim C6. The message has a thumbnail that is not embedded and is out of view, in any
  state reached from a controller just created. After \<^verbatim>\<open>thumbnailInView(true)\<close>
  followed by \<^verbatim>\<open>thumbnailInView(false)\<close> with no event in between,
  \<^verbatim>\<open>thumbnailDownloading\<close> is false and \<^verbatim>\<open>thumbnail\<close> is \<^verbatim>\<open>null\<close>; the two calls
  made no call on a service; the timer that the first call registered (it does when no
  thumbnail is held) is no longer registered; and whatever timers fire and promises
  settle afterwards, no request for the thumbnail is added to those made before.
\<close>

theorem exit_before_timer_cancels_fetch:
  assumes "controller imageFormat msg rcv = Inr c"
    and "msg_thumbnail msg = Some th" and "img th = None"
    and "sys = run es (new_system imageFormat c)"
    and "\<not> wasInView (self sys)"
    and "sys1 = step (CallThumbnailInView True) sys"
    and "sys2 = step (CallThumbnailInView False) sys1"
    and "list_all env_event es'"
  shows "\<not> thumbnailDownloading (self sys2) \<and> thumbnail (self sys2) = None
    \<and> effects sys2 = effects sys
    \<and> thumbnailRequests sys2 = thumbnailRequests sys
    \<and> (thumbnail (self sys) = None \<longrightarrow>
          thumbnailDownloading (self sys1)
          \<and> find_timer (nextTimer sys) (timers sys1) = Some RequestThumbnailTask)
    \<and> find_timer (nextTimer sys) (timers sys2) = None
    \<and> filter is_RequestThumbnail (effects (run es' sys2))
        = filter is_RequestThumbnail (effects sys)"
proof -
  have b: "bindings_inv imageFormat msg rcv sys"
    unfolding assms(4) using assms(1) by (intro bindings_inv_run new_system_bindings_inv)
  then have th: "msg_thumbnail (message (self sys)) = Some th"
    using assms(2) by (simp add: bindings_inv_def)
  have "timers_fresh sys"
    unfolding assms(4) by (intro timers_fresh_run new_system_timers_fresh)
  then have fresh: "find_timer (nextTimer sys) (timers sys) = None"
    by (simp add: timers_fresh_def find_timer_fresh)
  have "fetch_timer_inv sys"
    unfolding assms(4) by (intro fetch_timer_inv_run new_system_fetch_timer_inv)
  then have "fetch_timer_inv sys2"
    unfolding assms(6,7) by (intro fetch_timer_inv_step)
  moreover have out: "\<not> wasInView (self sys2)"
    using th assms(3,5)
    by (auto simp: assms(6,7) thumbnailInView_def timeout_cancel_def timeout_call_def Let_def
          split: option.splits)
  ultimately have "no_fetch_timer sys2"
    by (auto simp: fetch_timer_inv_def no_fetch_timer_def)
  then have ever: "filter is_RequestThumbnail (effects (run es' sys2))
      = filter is_RequestThumbnail (effects sys2)"
    using assms(8) by (rule no_fetch_timer_run)
  have now: "\<not> thumbnailDownloading (self sys2)" "thumbnail (self sys2) = None"
    "effects sys2 = effects sys" "thumbnailRequests sys2 = thumbnailRequests sys"
    using th assms(3,5)
    by (auto simp: assms(6,7) thumbnailInView_def timeout_cancel_def timeout_call_def Let_def
          split: option.splits)
  have sched: "thumbnail (self sys) = None \<longrightarrow>
      thumbnailDownloading (self sys1)
      \<and> find_timer (nextTimer sys) (timers sys1) = Some RequestThumbnailTask"
    using th assms(3,5) fresh
    by (auto simp: assms(6) thumbnailInView_def timeout_call_def Let_def find_timer_append)
  have gone: "find_timer (nextTimer sys) (timers sys2) = None"
    using th assms(3,5) fresh
    by (auto simp: assms(6,7) thumbnailInView_def timeout_cancel_def timeout_call_def Let_def
          find_timer_append find_timer_filter split: option.splits)
  show ?thesis
    using now sched gone ever by simp
qed

theorem exit_before_timer_cancels_fetch_witness:
  "controller ''image/jpeg'' remote_thumbnail_message ''r1''
     = Inr (projr (controller ''image/jpeg'' remote_thumbnail_message ''r1''))
   \<and> msg_thumbnail remote_thumbnail_message = Some \<lparr> img = None, width = ''10'', height = ''20'' \<rparr>
   \<and> img \<lparr> img = None, width = ''10'', height = ''20'' \<rparr> = None
   \<and> \<not> wasInView (self (new_system ''image/jpeg''
           (projr (controller ''image/jpeg'' remote_thumbnail_message ''r1''))))
   \<and> list_all env_event [TimerFires 0, ThumbnailResolved (Buffer [1, 2]), TimerFires 1]
   \<and> find_timer 0 (timers (step (CallThumbnailInView True) (new_system ''image/jpeg''
           (projr (controller ''image/jpeg'' remote_thumbnail_message ''r1'')))))
      = Some RequestThumbnailTask
   \<and> \<not> thumbnailDownloading (self (step (CallThumbnailInView False)
        (step (CallThumbnailInView True) (new_system ''image/jpeg''
           (projr (controller ''image/jpeg'' remote_thumbnail_message ''r1''))))))
   \<and> thumbnail (self (step (CallThumbnailInView False)
        (step (CallThumbnailInView True) (new_system ''image/jpeg''
           (projr (controller ''image/jpeg'' remote_thumbnail_message ''r1''))))))
      = None
   \<and> filter is_RequestThumbnail (effects
        (run [TimerFires 0, ThumbnailResolved (Buffer [1, 2]), TimerFires 1]
          (step (CallThumbnailInView False)
            (step (CallThumbnailInView True) (new_system ''image/jpeg''
               (projr (controller ''image/jpeg'' remote_thumbnail_message ''r1'')))))))
      = []"
  using exit_before_timer_cancels_fetch
    [of "''image/jpeg''" remote_thumbnail_message "''r1''"
      "projr (controller ''image/jpeg'' remote_thumbnail_message ''r1'')"
      "\<lparr> img = None, width = ''10'', height = ''20'' \<rparr>"
      "new_system ''image/jpeg''
         (projr (controller ''image/jpeg'' remote_thumbnail_message ''r1''))"
      "[]"
      "step (CallThumbnailInView True) (new_system ''image/jpeg''
         (projr (controller ''image/jpeg'' remote_thumbnail_message ''r1'')))"
      "step (CallThumbnailInView False)
        (step (CallThumbnailInView True) (new_system ''image/jpeg''
           (projr (controller ''image/jpeg'' remote_thumbnail_message ''r1''))))"
      "[TimerFires 0, ThumbnailResolved (Buffer [1, 2]), TimerFires 1]"]
  by (simp add: example_defs op_defs)

section \<open>Downloading a file\<close>

text \<open>
  Claim C9. For a message of type \<^verbatim>\<open>file\<close>, \<^verbatim>\<open>download()\<close> followed by the success
  of the fetch: when the file's type is \<^verbatim>\<open>image/gif\<close>, \<^verbatim>\<open>showThumbnail\<close> is false,
  \<^verbatim>\<open>blobBuffer\<close> holds the fetched bytes and the only call on a service is the
  request itself (nothing is saved); for any other file type the fetched bytes are saved
  under the suggested file name, and \<^verbatim>\<open>showThumbnail\<close> and \<^verbatim>\<open>blobBuffer\<close> are as
  before.
\<close>

theorem file_download_gif_inline_else_saved:
  assumes "\<not> downloading (self sys)"
    and "msg_type (message (self sys)) = ''file''"
    and "msg_file (message (self sys)) = Some f"
    and "sys' = step (BlobResolved blobInfo) (step CallDownload sys)"
  shows "(file_type f = ''image/gif'' \<longrightarrow>
            \<not> showThumbnail (self sys')
            \<and> blobBuffer (self sys') = Some (blob_buffer blobInfo)
            \<and> effects sys' = effects sys
                 @ [RequestBlob (msg_id (message (self sys))) (receiver (self sys))])
    \<and> (file_type f \<noteq> ''image/gif'' \<longrightarrow>
            showThumbnail (self sys') = showThumbnail (self sys)
            \<and> blobBuffer (self sys') = blobBuffer (self sys)
            \<and> effects sys' = effects sys
                 @ [RequestBlob (msg_id (message (self sys))) (receiver (self sys)),
                    SaveAs (blob_buffer blobInfo) (filename blobInfo)])
    \<and> downloaded (self sys') \<and> \<not> downloading (self sys')"
  using assms by (simp add: download_def download_then_def Let_def)

theorem file_download_gif_inline_else_saved_witness:
  "\<not> downloading (self (new_system ''image/jpeg''
        (projr (controller ''image/jpeg'' gif_message ''r1''))))
   \<and> msg_type (message (self (new_system ''image/jpeg''
        (projr (controller ''image/jpeg'' gif_message ''r1''))))) = ''file''
   \<and> msg_file (message (self (new_system ''image/jpeg''
        (projr (controller ''image/jpeg'' gif_message ''r1'')))))
      = Some \<lparr> file_type = ''image/gif'' \<rparr>
   \<and> file_type \<lparr> file_type = ''image/gif'' \<rparr> = ''image/gif''
   \<and> \<not> showThumbnail (self (step (BlobResolved example_blob) (step CallDownload
        (new_system ''image/jpeg'' (projr (controller ''image/jpeg'' gif_message ''r1''))))))
   \<and> blobBuffer (self (step (BlobResolved example_blob) (step CallDownload
        (new_system ''image/jpeg'' (projr (controller ''image/jpeg'' gif_message ''r1''))))))
      = Some [1, 2]
   \<and> effects (step (BlobResolved example_blob) (step CallDownload
        (new_system ''image/jpeg'' (projr (controller ''image/jpeg'' gif_message ''r1'')))))
      = [RequestBlob ''m3'' ''r1'']
   \<and> \<not> downloading (self (new_system ''image/jpeg''
        (projr (controller ''image/jpeg'' pdf_message ''r1''))))
   \<and> msg_type (message (self (new_system ''image/jpeg''
        (projr (controller ''image/jpeg'' pdf_message ''r1''))))) = ''file''
   \<and> msg_file (message (self (new_system ''image/jpeg''
        (projr (controller ''image/jpeg'' pdf_message ''r1'')))))
      = Some \<lparr> file_type = ''application/pdf'' \<rparr>
   \<and> file_type \<lparr> file_type = ''application/pdf'' \<rparr> \<noteq> ''image/gif''
   \<and> effects (step (BlobResolved example_blob) (step CallDownload
        (new_system ''image/jpeg'' (projr (controller ''image/jpeg'' pdf_message ''r1'')))))
      = [RequestBlob ''m5'' ''r1'', SaveAs [1, 2] ''f.bin'']"
  using file_download_gif_inline_else_saved
    [of "new_system ''image/jpeg'' (projr (controller ''image/jpeg'' gif_message ''r1''))"
      "\<lparr> file_type = ''image/gif'' \<rparr>"
      "step (BlobResolved example_blob) (step CallDownload
        (new_system ''image/jpeg'' (projr (controller ''image/jpeg'' gif_message ''r1''))))"
      example_blob]
    file_download_gif_inline_else_saved
    [of "new_system ''image/jpeg'' (projr (controller ''image/jpeg'' pdf_message ''r1''))"
      "\<lparr> file_type = ''application/pdf'' \<rparr>"
      "step (BlobResolved example_blob) (step CallDownload
        (new_system ''image/jpeg'' (projr (controller ''image/jpeg'' pdf_message ''r1''))))"
      example_blob]
  by (simp add: example_defs gif_message_def pdf_message_def)

section \<open>Creating the controller\<close>

text \<open>The controller function throws on exactly one kind of message.\<close>

lemma controller_throws_iff:
  "isl (controller imageFormat msg rcv)
   \<longleftrightarrow> msg_temporaryId msg = None \<and> msg_type msg = ''file'' \<and> msg_file msg = None"
  by (simp add: controller_def Let_def)

text \<open>
  Against claim C10 as stated: a message of type \<^verbatim>\<open>file\<close> that is not uploading and
  has a location but no \<^verbatim>\<open>file\<close> field. Reading \<^verbatim>\<open>this.message.file.type\<close> throws
  before the location is looked at: no controller state comes into being.
\<close>

theorem location_message_without_file_throws:
  "msg_location file_location_message = Some \<lparr> lat = 47, lon = 8 \<rparr>
   \<and> controller ''image/jpeg'' file_location_message ''r1''
       = Inl (TypeError ''this.message.file is undefined'')"
  by (simp add: controller_def file_location_message_def)

text \<open>
  Claim C10, amended. For every message with a location on which the controller
  function does not throw, that is every message but one of type \<^verbatim>\<open>file\<close> that is
  not uploading and has no \<^verbatim>\<open>file\<close> field, the function returns a controller whose
  \<^verbatim>\<open>location\<close> is the message's and whose \<^verbatim>\<open>downloaded\<close> is true, with
  \<^verbatim>\<open>downloading\<close> false; nothing has been requested, scheduled or called.
\<close>

theorem location_message_created_downloaded:
  assumes "msg_location msg = Some loc"
    and "\<not> (msg_temporaryId msg = None \<and> msg_type msg = ''file'' \<and> msg_file msg = None)"
  shows "\<exists>c. controller imageFormat msg rcv = Inr c
    \<and> location c = Some loc \<and> downloaded c \<and> \<not> downloading c
    \<and> effects (new_system imageFormat c) = []
    \<and> blobRequests (new_system imageFormat c) = 0
    \<and> thumbnailRequests (new_system imageFormat c) = 0
    \<and> timers (new_system imageFormat c) = []"
  using assms by (auto simp: controller_def Let_def)

theorem location_message_created_downloaded_witness:
  "msg_location location_message = Some \<lparr> lat = 47, lon = 8 \<rparr>
   \<and> msg_type location_message \<noteq> ''file''
   \<and> (\<exists>c. controller ''image/jpeg'' location_message ''r1'' = Inr c
        \<and> location c = Some \<lparr> lat = 47, lon = 8 \<rparr> \<and> downloaded c \<and> \<not> downloading c
        \<and> effects (new_system ''image/jpeg'' c) = []
        \<and> blobRequests (new_system ''image/jpeg'' c) = 0)
   \<and> msg_location uploading_file_location_message = Some \<lparr> lat = 47, lon = 8 \<rparr>
   \<and> msg_temporaryId uploading_file_location_message \<noteq> None
   \<and> (\<exists>c. controller ''image/jpeg'' uploading_file_location_message ''r1'' = Inr c
        \<and> location c = Some \<lparr> lat = 47, lon = 8 \<rparr> \<and> downloaded c \<and> \<not> downloading c
        \<and> effects (new_system ''image/jpeg'' c) = []
        \<and> blobRequests (new_system ''image/jpeg'' c) = 0)"
  using location_message_created_downloaded
    [of location_message "\<lparr> lat = 47, lon = 8 \<rparr>" "''image/jpeg''" "''r1''"]
    location_message_created_downloaded
    [of uploading_file_location_message "\<lparr> lat = 47, lon = 8 \<rparr>" "''image/jpeg''" "''r1''"]
  by (simp add: location_message_def uploading_file_location_message_def)

end
